theory Spec2Isabelle
  imports Complex_Main "HOL-Library.AList"
begin

section \<open>Python values used by the memory manager\<close>

text \<open>
  The module \<^verbatim>\<open>memory.py\<close> defines one class, \<^verbatim>\<open>Memory\<close>. Its methods are embedded
  below as HOL functions over an explicit state. Conventions:
  \<^item> a Python \<^verbatim>\<open>float\<close> is a \<^typ>\<open>real\<close> (exact arithmetic; NaN and binary rounding are
    outside the model);
  \<^item> a Python \<^verbatim>\<open>str\<close> is a \<^typ>\<open>string\<close> of ASCII text;
  \<^item> a Python \<^verbatim>\<open>dict\<close> with string keys is an association list in insertion order, read
    with \<^const>\<open>map_of\<close> and written with \<^const>\<open>AList.update\<close>;
  \<^item> a raised exception is a value of type \<open>error\<close>.
\<close>

datatype jval =
    JNone
  | JBool bool
  | JNum real
  | JStr string
  | JDict "(string \<times> jval) list"

type_synonym pydict = "(string \<times> jval) list"

datatype error =
    KeyError string
  | TypeError
  | DatabaseError
  | ProviderError

section \<open>Quality score\<close>

text \<open>
  \<^verbatim>\<open>round(total, 3)\<close>: the multiple of \<open>1/1000\<close> nearest to \<open>total\<close>, a tie going to
  the even multiple.
\<close>

definition py_round3 :: "real \<Rightarrow> real" where
  "py_round3 x =
     (let y = x * 1000; n = \<lfloor>y\<rfloor>; d = y - of_int n
      in of_int (if d < 1 / 2 then n
                 else if 1 / 2 < d then n + 1
                 else if even n then n else n + 1) / 1000)"

definition default_weights :: "(string \<times> real) list" where
  "default_weights =
     [(''completeness'', 0.25), (''relevance'', 0.25), (''clarity'', 0.25), (''accuracy'', 0.25)]"

text \<open>\<^verbatim>\<open>weights[k]\<close> raises \<^verbatim>\<open>KeyError\<close> on a missing key.\<close>

definition weight :: "(string \<times> real) list \<Rightarrow> string \<Rightarrow> error + real" where
  "weight ws k = (case map_of ws k of None \<Rightarrow> Inl (KeyError k) | Some w \<Rightarrow> Inr w)"

text \<open>
  \<^verbatim>\<open>compute_quality_score\<close> (lines 163-196). \<^verbatim>\<open>if not weights\<close> holds for \<^verbatim>\<open>None\<close> and
  for the empty dictionary. The four products are evaluated left to right, so the first
  missing key is the one reported.
\<close>

definition compute_quality_score ::
  "real \<Rightarrow> real \<Rightarrow> real \<Rightarrow> real \<Rightarrow> (string \<times> real) list option \<Rightarrow> error + real" where
  "compute_quality_score completeness relevance clarity accuracy weights =
     (let ws = (case weights of
                  None \<Rightarrow> default_weights
                | Some w \<Rightarrow> if w = [] then default_weights else w)
      in case weight ws ''completeness'' of Inl e \<Rightarrow> Inl e | Inr wc \<Rightarrow>
         (case weight ws ''relevance'' of Inl e \<Rightarrow> Inl e | Inr wr \<Rightarrow>
         (case weight ws ''clarity'' of Inl e \<Rightarrow> Inl e | Inr wl \<Rightarrow>
         (case weight ws ''accuracy'' of Inl e \<Rightarrow> Inl e | Inr wa \<Rightarrow>
            Inr (py_round3 (completeness * wc + relevance * wr
                            + clarity * wl + accuracy * wa))))))"

section \<open>Strings\<close>

text \<open>
  \<^verbatim>\<open>str.isspace\<close>, \<^verbatim>\<open>str.lower\<close> and the \<^verbatim>\<open>in\<close> test on ASCII text. Python counts the
  control characters 28 to 31 as white space besides tab, line feed, vertical tab, form feed,
  carriage return and the blank.
\<close>

definition isspace :: "char \<Rightarrow> bool" where
  "isspace c = (let n = (of_char c :: nat) in (9 \<le> n \<and> n \<le> 13) \<or> (28 \<le> n \<and> n \<le> 32))"

definition lower_char :: "char \<Rightarrow> char" where
  "lower_char c = (let n = (of_char c :: nat) in if 65 \<le> n \<and> n \<le> 90 then char_of (n + 32) else c)"

fun contains :: "string \<Rightarrow> string \<Rightarrow> bool" where
  "contains sub [] = (sub = [])"
| "contains sub (c # cs) = (take (length sub) (c # cs) = sub \<or> contains sub cs)"

definition marker :: string where
  "marker = ''(Memory record:''"

text \<open>The f-string \<^verbatim>\<open>f"{text} (Memory record: {text})"\<close> of lines 461 and 487.\<close>

definition with_citation :: "string \<Rightarrow> string" where
  "with_citation t = t @ '' (Memory record: '' @ t @ '')''"

text \<open>\<^verbatim>\<open>str(n)\<close> of a natural number: its decimal digits.\<close>

fun str_nat :: "nat \<Rightarrow> string" where
  "str_nat n = (if n < 10 then [char_of (48 + n)]
                else str_nat (n div 10) @ [char_of (48 + n mod 10)])"

declare str_nat.simps [simp del]

text \<open>The slice \<^verbatim>\<open>xs[:n]\<close>: a negative \<open>n\<close> counts from the end.\<close>

definition py_take :: "int \<Rightarrow> 'a list \<Rightarrow> 'a list" where
  "py_take n xs = (if 0 \<le> n then take (nat n) xs else take (nat (int (length xs) + n)) xs)"

section \<open>The durable tables\<close>

text \<open>
  A row of \<^verbatim>\<open>short_mem\<close> or \<^verbatim>\<open>long_mem\<close>: \<^verbatim>\<open>(id, content, meta, created_at)\<close>. The
  column \<^verbatim>\<open>meta\<close> holds \<^verbatim>\<open>json.dumps(metadata)\<close> and is read back with \<^verbatim>\<open>json.loads\<close>;
  the row keeps the dictionary itself. A table is the list of its rows in insertion order.
  Reading a table is taken to succeed.
\<close>

record row =
  row_id :: string
  row_content :: string
  row_meta :: pydict
  row_created_at :: real

text \<open>
  \<^verbatim>\<open>INSERT INTO ... VALUES (?,?,?,?)\<close> followed by \<^verbatim>\<open>commit\<close>. The statement fails when
  the database does (\<open>ok\<close> is false) or when the primary key \<^verbatim>\<open>id\<close> is already taken.
\<close>

definition db_insert :: "bool \<Rightarrow> row list \<Rightarrow> row \<Rightarrow> error + row list" where
  "db_insert ok tbl r =
     (if ok \<and> row_id r \<notin> set (map row_id tbl) then Inr (tbl @ [r])
      else Inl DatabaseError)"

text \<open>
  SQLite's \<^verbatim>\<open>LIKE\<close>: \<^verbatim>\<open>%\<close> matches any run of characters, \<^verbatim>\<open>_\<close> any one character,
  and letters match without regard to case.
\<close>

fun sql_like :: "string \<Rightarrow> string \<Rightarrow> bool" where
  "sql_like [] s = (s = [])"
| "sql_like (p # ps) [] = (p = CHR ''%'' \<and> sql_like ps [])"
| "sql_like (p # ps) (c # cs) =
     (if p = CHR ''%'' then sql_like ps (c # cs) \<or> sql_like (p # ps) cs
      else (p = CHR ''_'' \<or> lower_char p = lower_char c) \<and> sql_like ps cs)"

text \<open>\<^verbatim>\<open>LIMIT ?\<close>: a negative bound means no bound.\<close>

definition sql_limit :: "int \<Rightarrow> 'a list \<Rightarrow> 'a list" where
  "sql_limit n xs = (if n < 0 then xs else take (nat n) xs)"

text \<open>\<^verbatim>\<open>SELECT ... WHERE content LIKE ? LIMIT ?\<close> with the pattern \<^verbatim>\<open>f"%{query}%"\<close>.\<close>

definition select_like :: "row list \<Rightarrow> string \<Rightarrow> int \<Rightarrow> row list" where
  "select_like tbl query limit =
     sql_limit limit (filter (\<lambda>r. sql_like (''%'' @ query @ ''%'') (row_content r)) tbl)"

section \<open>State of the manager and of its caller\<close>

text \<open>
  \<open>heap\<close> holds the dictionaries the caller and the manager share by reference: an address
  is an index into the list, and allocation appends. \<open>use_mem0\<close> stands for the test
  \<^verbatim>\<open>self.use_mem0 and hasattr(self, "mem0_client")\<close> and \<open>use_rag\<close> for
  \<^verbatim>\<open>self.use_rag and hasattr(self, "chroma_col")\<close>, as the constructor leaves them.
  \<open>chroma_col\<close> lists the ids and documents added to the vector collection and \<open>mem0_mem\<close>
  the texts and metadata added to the external service.
\<close>

record state =
  heap :: "pydict list"
  use_mem0 :: bool
  use_rag :: bool
  short_mem :: "row list"
  long_mem :: "row list"
  chroma_col :: "(string \<times> string) list"
  mem0_mem :: "(string \<times> pydict) list"

text \<open>
  What one store operation reads from outside: the clock (\<^verbatim>\<open>time.time_ns()\<close> and
  \<^verbatim>\<open>time.time()\<close>), whether the SQLite write succeeds, whether the embedding request
  succeeds and whether the write to the secondary backend succeeds.
\<close>

record store_env =
  time_ns :: nat
  time_now :: real
  db_ok :: bool
  embed_ok :: bool
  backend_ok :: bool

text \<open>The optional quality arguments shared by the two store methods.\<close>

record quality_args =
  arg_completeness :: "real option"
  arg_relevance :: "real option"
  arg_clarity :: "real option"
  arg_accuracy :: "real option"
  arg_weights :: "(string \<times> real) list option"
  arg_evaluator_quality :: "real option"

definition no_quality :: quality_args where
  "no_quality = \<lparr>arg_completeness = None, arg_relevance = None, arg_clarity = None,
                  arg_accuracy = None, arg_weights = None, arg_evaluator_quality = None\<rparr>"

section \<open>Quality metadata\<close>

text \<open>\<^verbatim>\<open>d.update(other)\<close>: the pairs of \<open>other\<close> are written in order.\<close>

definition dict_update :: "pydict \<Rightarrow> pydict \<Rightarrow> pydict" where
  "dict_update d other = foldl (\<lambda>acc (k, v). AList.update k v acc) d other"

text \<open>
  \<^verbatim>\<open>metadata = metadata or {}\<close>: \<^verbatim>\<open>None\<close> and the empty dictionary are both false, so
  either yields a new empty dictionary; any other dictionary is kept, by reference.
\<close>

definition or_empty :: "pydict list \<Rightarrow> nat option \<Rightarrow> pydict list \<times> nat" where
  "or_empty h metadata =
     (case metadata of
        None \<Rightarrow> (h @ [[]], length h)
      | Some p \<Rightarrow> if p < length h \<and> h ! p \<noteq> [] then (h, p) else (h @ [[]], length h))"

text \<open>
  \<^verbatim>\<open>_process_quality_metrics\<close> (lines 759-787). The result is the heap after the call and
  the address of the dictionary returned. \<^verbatim>\<open>compute_quality_score\<close> is evaluated
  while the argument of \<^verbatim>\<open>update\<close> is built, so its \<^verbatim>\<open>KeyError\<close> leaves the dictionary
  as it was.
\<close>

definition process_quality_metrics ::
  "pydict list \<Rightarrow> nat option \<Rightarrow> quality_args \<Rightarrow> error + (pydict list \<times> nat)" where
  "process_quality_metrics h metadata qa =
     (let (h1, p) = or_empty h metadata
      in case (arg_completeness qa, arg_relevance qa, arg_clarity qa, arg_accuracy qa) of
           (Some c, Some r, Some l, Some a) \<Rightarrow>
             (case compute_quality_score c r l a (arg_weights qa) of
                Inl e \<Rightarrow> Inl e
              | Inr q \<Rightarrow>
                  Inr (h1[p := dict_update (h1 ! p)
                         [(''completeness'', JNum c), (''relevance'', JNum r),
                          (''clarity'', JNum l), (''accuracy'', JNum a),
                          (''quality'', JNum q)]], p))
         | _ \<Rightarrow>
             (case arg_evaluator_quality qa of
                Some q \<Rightarrow> Inr (h1[p := AList.update ''quality'' (JNum q) (h1 ! p)], p)
              | None \<Rightarrow> Inr (h1, p)))"

section \<open>Store operations\<close>

text \<open>
  \<^verbatim>\<open>store_short_term\<close> (lines 201-235). The result is the state after the call and the
  exception raised, if any. A failed insert is logged and raised again.
\<close>

definition store_short_term ::
  "state \<Rightarrow> store_env \<Rightarrow> string \<Rightarrow> nat option \<Rightarrow> quality_args \<Rightarrow> state \<times> error option" where
  "store_short_term st env body metadata qa =
     (case process_quality_metrics (heap st) metadata qa of
        Inl e \<Rightarrow> (st, Some e)
      | Inr (h, p) \<Rightarrow>
          (let st1 = st\<lparr>heap := h\<rparr>;
               ident = str_nat (time_ns env)
           in case db_insert (db_ok env) (short_mem st1)
                     \<lparr>row_id = ident, row_content = body, row_meta = h ! p,
                      row_created_at = time_now env\<rparr> of
                Inl e \<Rightarrow> (st1, Some e)
              | Inr tbl \<Rightarrow> (st1\<lparr>short_mem := tbl\<rparr>, None)))"

text \<open>
  \<^verbatim>\<open>store_long_term\<close> (lines 337-414). A failed insert is logged and the method returns
  (line 376). After a successful insert the text goes to the vector collection, or else to
  the external service, when one is in use; a failure there is logged only.
\<close>

definition store_long_term ::
  "state \<Rightarrow> store_env \<Rightarrow> string \<Rightarrow> nat option \<Rightarrow> quality_args \<Rightarrow> state \<times> error option" where
  "store_long_term st env body metadata qa =
     (let (h0, p0) = or_empty (heap st) metadata
      in case process_quality_metrics h0 (Some p0) qa of
           Inl e \<Rightarrow> (st, Some e)
         | Inr (h, p) \<Rightarrow>
             (let st1 = st\<lparr>heap := h\<rparr>;
                  ident = str_nat (time_ns env);
                  created = time_now env
              in case db_insert (db_ok env) (long_mem st1)
                        \<lparr>row_id = ident, row_content = body, row_meta = h ! p,
                         row_created_at = created\<rparr> of
                   Inl e \<Rightarrow> (st1, None)
                 | Inr tbl \<Rightarrow>
                     (let st2 = st1\<lparr>long_mem := tbl\<rparr>
                      in if use_rag st then
                           (if embed_ok env \<and> backend_ok env
                            then (st2\<lparr>chroma_col := chroma_col st2 @ [(ident, body)]\<rparr>, None)
                            else (st2, None))
                         else if use_mem0 st then
                           (if backend_ok env
                            then (st2\<lparr>mem0_mem := mem0_mem st2 @ [(body, h ! p)]\<rparr>, None)
                            else (st2, None))
                         else (st2, None))))"

section \<open>Search operations\<close>

text \<open>
  A search result is a dictionary; the methods read the keys \<^verbatim>\<open>id\<close>, \<^verbatim>\<open>text\<close>,
  \<^verbatim>\<open>metadata\<close>, \<^verbatim>\<open>score\<close> and \<^verbatim>\<open>created_at\<close>. A missing \<^verbatim>\<open>text\<close> or \<^verbatim>\<open>metadata\<close>
  is read with the default \<^verbatim>\<open>''\<close> or \<^verbatim>\<open>{}\<close> everywhere and is represented by that
  default; a missing \<^verbatim>\<open>score\<close> or \<^verbatim>\<open>created_at\<close> is \<open>None\<close>.
\<close>

record hit =
  hit_id :: string
  hit_text :: string
  hit_metadata :: pydict
  hit_score :: "real option"
  hit_created_at :: "real option"

text \<open>One entry of a response of the vector collection.\<close>

record chroma_item =
  item_id :: string
  item_document :: string
  item_metadata :: pydict
  item_distance :: real

text \<open>
  The providers behind a search. \<open>mem0_search query limit user_id\<close> is
  \<^verbatim>\<open>mem0_client.search\<close>; \<open>chroma_query query limit\<close> is the embedding request followed by
  \<^verbatim>\<open>chroma_col.query\<close>. Either returns its results or raises.
\<close>

record backends =
  mem0_search :: "string \<Rightarrow> int \<Rightarrow> string option \<Rightarrow> error + hit list"
  chroma_query :: "string \<Rightarrow> int \<Rightarrow> error + chroma_item list"

text \<open>
  \<^verbatim>\<open>v >= x\<close> for a float \<open>x\<close>: defined on numbers and booleans, a \<^verbatim>\<open>TypeError\<close> on
  \<^verbatim>\<open>None\<close>, strings and dictionaries.
\<close>

definition py_ge :: "jval \<Rightarrow> real \<Rightarrow> error + bool" where
  "py_ge v x =
     (case v of
        JNum q \<Rightarrow> Inr (x \<le> q)
      | JBool b \<Rightarrow> Inr (x \<le> (if b then 1 else 0))
      | _ \<Rightarrow> Inl TypeError)"

text \<open>\<^verbatim>\<open>metadata.get("quality", 0.0) >= min_quality\<close>.\<close>

definition quality_ok :: "pydict \<Rightarrow> real \<Rightarrow> error + bool" where
  "quality_ok m min_quality =
     py_ge (case map_of m ''quality'' of None \<Rightarrow> JNum 0 | Some v \<Rightarrow> v) min_quality"

text \<open>\<^verbatim>\<open>r.get("score", 1.0)\<close>.\<close>

definition score_or_1 :: "hit \<Rightarrow> real" where
  "score_or_1 h = (case hit_score h of None \<Rightarrow> 1 | Some x \<Rightarrow> x)"

text \<open>A comprehension \<^verbatim>\<open>[x for x in xs if p(x)]\<close> whose test may raise.\<close>

fun filter_result :: "('a \<Rightarrow> error + bool) \<Rightarrow> 'a list \<Rightarrow> error + 'a list" where
  "filter_result p [] = Inr []"
| "filter_result p (x # xs) =
     (case p x of
        Inl e \<Rightarrow> Inl e
      | Inr b \<Rightarrow>
          (case filter_result p xs of
             Inl e \<Rightarrow> Inl e
           | Inr ys \<Rightarrow> Inr (if b then x # ys else ys)))"

text \<open>The test of the vector branch of \<^verbatim>\<open>search_short_term\<close> (line 277).\<close>

definition item_ok :: "real \<Rightarrow> real \<Rightarrow> chroma_item \<Rightarrow> error + bool" where
  "item_ok min_quality relevance_cutoff i =
     (case quality_ok (item_metadata i) min_quality of
        Inl e \<Rightarrow> Inl e
      | Inr b \<Rightarrow> Inr (b \<and> relevance_cutoff \<le> 1 - item_distance i))"

text \<open>Lines 304-308: the result built from a row of \<^verbatim>\<open>short_mem\<close>.\<close>

definition short_hit :: "row \<Rightarrow> hit" where
  "short_hit r =
     \<lparr>hit_id = row_id r, hit_text = row_content r, hit_metadata = row_meta r,
      hit_score = None, hit_created_at = None\<rparr>"

text \<open>
  \<^verbatim>\<open>search_short_term\<close> (lines 237-309). The external service is asked without a
  \<^verbatim>\<open>try\<close>; the vector branch answers \<^verbatim>\<open>[]\<close> on any exception; otherwise the table is
  queried.
\<close>

definition search_short_term ::
  "state \<Rightarrow> backends \<Rightarrow> string \<Rightarrow> int \<Rightarrow> real \<Rightarrow> real \<Rightarrow> error + hit list" where
  "search_short_term st be query limit min_quality relevance_cutoff =
     (if use_mem0 st then
        (case mem0_search be query limit None of
           Inl e \<Rightarrow> Inl e
         | Inr results \<Rightarrow> Inr (filter (\<lambda>r. relevance_cutoff \<le> score_or_1 r) results))
      else if use_rag st then
        (case chroma_query be query limit of
           Inl e \<Rightarrow> Inr []
         | Inr items \<Rightarrow>
             (case filter_result (item_ok min_quality relevance_cutoff) items of
                Inl e \<Rightarrow> Inr []
              | Inr kept \<Rightarrow>
                  Inr (map (\<lambda>i. \<lparr>hit_id = item_id i, hit_text = item_document i,
                                   hit_metadata = item_metadata i,
                                   hit_score = Some (1 - item_distance i),
                                   hit_created_at = None\<rparr>) kept)))
      else
        (case filter_result (\<lambda>r. quality_ok (row_meta r) min_quality)
                (select_like (short_mem st) query limit) of
           Inl e \<Rightarrow> Inl e
         | Inr kept \<Rightarrow> Inr (map short_hit kept)))"

text \<open>Lines 457-467: a result of the vector collection, the citation always appended.\<close>

definition vector_hit :: "chroma_item \<Rightarrow> hit" where
  "vector_hit i =
     \<lparr>hit_id = item_id i, hit_text = with_citation (item_document i),
      hit_metadata = item_metadata i, hit_score = Some (1 - item_distance i),
      hit_created_at = None\<rparr>"

text \<open>Lines 484-487: the text of a table row, the citation appended if it has none.\<close>

definition local_text :: "string \<Rightarrow> string" where
  "local_text t = (if \<not> contains marker t then with_citation t else t)"

text \<open>Lines 490-495: the result built from a table row.\<close>

definition local_hit :: "row \<Rightarrow> hit" where
  "local_hit r =
     \<lparr>hit_id = row_id r, hit_text = local_text (row_content r),
      hit_metadata = row_meta r, hit_score = None,
      hit_created_at = Some (row_created_at r)\<rparr>"

text \<open>Lines 482-495: one turn of the loop over the rows of \<^verbatim>\<open>long_mem\<close>.\<close>

definition merge_row :: "hit list \<Rightarrow> row \<Rightarrow> hit list" where
  "merge_row found r =
     (if \<not> list_ex (\<lambda>f. hit_id f = row_id r) found then found @ [local_hit r] else found)"

text \<open>
  Lines 437-495 of \<^verbatim>\<open>search_long_term\<close>: the list \<^verbatim>\<open>found\<close>. The vector branch fills it
  and leaves it empty on an exception; the rows selected from the table are then merged in.
\<close>

definition found_hits :: "state \<Rightarrow> backends \<Rightarrow> string \<Rightarrow> int \<Rightarrow> hit list" where
  "found_hits st be query limit =
     foldl merge_row
       (if use_rag st then
          (case chroma_query be query limit of
             Inl e \<Rightarrow> []
           | Inr items \<Rightarrow> map vector_hit items)
        else [])
       (select_like (long_mem st) query limit)"

text \<open>
  \<^verbatim>\<open>search_long_term\<close> (lines 417-514). The branch of the external service returns at
  line 435. Otherwise the quality and relevance filters are applied to \<^verbatim>\<open>found\<close> when
  their bound is positive, and the result is cut to \<open>limit\<close>.
\<close>

definition search_long_term ::
  "state \<Rightarrow> backends \<Rightarrow> string \<Rightarrow> int \<Rightarrow> real \<Rightarrow> real \<Rightarrow> error + hit list" where
  "search_long_term st be query limit relevance_cutoff min_quality =
     (if use_mem0 st then
        (case mem0_search be query limit None of
           Inl e \<Rightarrow> Inl e
         | Inr results \<Rightarrow> filter_result (\<lambda>r. quality_ok (hit_metadata r) min_quality) results)
      else
        (let found = found_hits st be query limit
         in case (if 0 < min_quality
                  then filter_result (\<lambda>r. quality_ok (hit_metadata r) min_quality) found
                  else Inr found) of
              Inl e \<Rightarrow> Inl e
            | Inr results \<Rightarrow>
                Inr (py_take limit
                       (if 0 < relevance_cutoff
                        then filter (\<lambda>r. relevance_cutoff \<le> score_or_1 r) results
                        else results))))"

text \<open>\<^verbatim>\<open>search_entity\<close> (lines 541-551).\<close>

definition is_entity :: "hit \<Rightarrow> bool" where
  "is_entity h = (map_of (hit_metadata h) ''category'' = Some (JStr ''entity''))"

definition search_entity :: "state \<Rightarrow> backends \<Rightarrow> string \<Rightarrow> int \<Rightarrow> error + hit list" where
  "search_entity st be query limit =
     (case search_long_term st be query 20 0 0 of
        Inl e \<Rightarrow> Inl e
      | Inr all_hits \<Rightarrow> Inr (py_take limit (filter is_entity all_hits)))"

text \<open>\<^verbatim>\<open>search_user_memory\<close> (lines 577-590).\<close>

definition search_user_memory ::
  "state \<Rightarrow> backends \<Rightarrow> string \<Rightarrow> string \<Rightarrow> int \<Rightarrow> error + hit list" where
  "search_user_memory st be user_id query limit =
     (if use_mem0 st then mem0_search be query limit (Some user_id)
      else
        (case search_long_term st be query 20 0 0 of
           Inl e \<Rightarrow> Inl e
         | Inr hits \<Rightarrow>
             Inr (py_take limit
                    (filter (\<lambda>h. map_of (hit_metadata h) ''user_id'' = Some (JStr user_id))
                       hits))))"

text \<open>
  \<^verbatim>\<open>search_with_quality\<close> (lines 885-910): \<open>short\<close> tells whether \<^verbatim>\<open>memory_type\<close> is
  \<^verbatim>\<open>"short"\<close>. The inner search runs with its default bounds \<open>0.0\<close>.
\<close>

definition search_with_quality ::
  "state \<Rightarrow> backends \<Rightarrow> string \<Rightarrow> real \<Rightarrow> bool \<Rightarrow> int \<Rightarrow> error + hit list" where
  "search_with_quality st be query min_quality short limit =
     (case (if short then search_short_term st be query limit 0 0
            else search_long_term st be query limit 0 0) of
        Inl e \<Rightarrow> Inl e
      | Inr results \<Rightarrow> filter_result (\<lambda>r. quality_ok (hit_metadata r) min_quality) results)"

section \<open>Task finalization\<close>

text \<open>
  \<^verbatim>\<open>finalize_task_output\<close> (lines 602-648). \<open>now\<close> is the clock reading stored under
  \<^verbatim>\<open>stored_at\<close>; \<open>env_s\<close> and \<open>env_l\<close> are what the short-term and the long-term store
  read from outside. The new metadata dictionary is passed to both stores by reference.
  An exception of either store is logged and dropped.
\<close>

definition finalize_task_output ::
  "state \<Rightarrow> real \<Rightarrow> store_env \<Rightarrow> store_env \<Rightarrow> string \<Rightarrow> string \<Rightarrow> real \<Rightarrow> real \<Rightarrow>
   pydict option \<Rightarrow> string option \<Rightarrow> state" where
  "finalize_task_output st now env_s env_l content agent_name quality_score threshold
       metrics task_id =
     (let metadata =
            [(''task_id'', case task_id of None \<Rightarrow> JNone | Some t \<Rightarrow> JStr t),
             (''agent'', JStr agent_name),
             (''quality'', JNum quality_score),
             (''metrics'', case metrics of None \<Rightarrow> JNone | Some m \<Rightarrow> JDict m),
             (''task_type'', JStr ''output''),
             (''stored_at'', JNum now)];
          p = length (heap st);
          st0 = st\<lparr>heap := heap st @ [metadata]\<rparr>;
          st1 = fst (store_short_term st0 env_s content (Some p) no_quality)
      in if threshold \<le> quality_score
         then fst (store_long_term st1 env_l content (Some p) no_quality)
         else st1)"

section \<open>Context assembly\<close>

text \<open>
  String helpers of \<^verbatim>\<open>build_context_for_task\<close>: \<^verbatim>\<open>s.strip()\<close>, \<^verbatim>\<open>s.split()\<close> (the
  maximal runs of characters that are not white space; \<open>w\<close> is the run being read),
  \<^verbatim>\<open>sep.join(xs)\<close>, \<^verbatim>\<open>s.split(sub)[0]\<close> (the text before the first occurrence of
  \<open>sub\<close>) and \<^verbatim>\<open>s.rfind(' ', 0, stop)\<close> (the last index below \<open>stop\<close> that holds a blank,
  or \<open>-1\<close>).
\<close>

definition strip :: "string \<Rightarrow> string" where
  "strip s = rev (dropWhile isspace (rev (dropWhile isspace s)))"

fun split_run :: "string \<Rightarrow> string \<Rightarrow> string list" where
  "split_run w [] = (if w = [] then [] else [w])"
| "split_run w (c # cs) =
     (if isspace c then (if w = [] then split_run [] cs else w # split_run [] cs)
      else split_run (w @ [c]) cs)"

definition split_ws :: "string \<Rightarrow> string list" where
  "split_ws s = split_run [] s"

fun join :: "string \<Rightarrow> string list \<Rightarrow> string" where
  "join sep [] = []"
| "join sep [x] = x"
| "join sep (x # y # ys) = x @ sep @ join sep (y # ys)"

fun before :: "string \<Rightarrow> string \<Rightarrow> string" where
  "before sub [] = []"
| "before sub (c # cs) = (if take (length sub) (c # cs) = sub then [] else c # before sub cs)"

definition rfind_space :: "string \<Rightarrow> int \<Rightarrow> int" where
  "rfind_space s stop =
     (let e = (if stop < 0 then max 0 (int (length s) + stop) else stop);
          idx = filter (\<lambda>i. s ! i = CHR '' '') [0 ..< min (nat e) (length s)]
      in if idx = [] then - 1 else int (last idx))"

text \<open>\<^verbatim>\<open>normalize_content\<close> (lines 668-674).\<close>

definition normalize_content :: "string \<Rightarrow> string" where
  "normalize_content content =
     (let normalized = strip (before marker content)
      in map lower_char (filter (\<lambda>c. \<not> isspace c) normalized))"

text \<open>\<^verbatim>\<open>format_content\<close> (lines 676-695).\<close>

definition format_content :: "string \<Rightarrow> int \<Rightarrow> string" where
  "format_content content max_len =
     (if content = [] then []
      else
        (let content = join '' '' (split_ws content)
         in if contains marker content then content
            else if int (length content) \<le> max_len then content
            else
              (let truncate_at = rfind_space content (max_len - 3);
                   truncate_at = (if truncate_at = - 1 then max_len - 3 else truncate_at)
               in py_take truncate_at content @ ''...'')))"

text \<open>
  Lines 703-718: one turn of the loop of \<^verbatim>\<open>add_section\<close> over the hits, on the set
  \<^verbatim>\<open>seen_contents\<close> and the list \<^verbatim>\<open>formatted_hits\<close>. \<open>formatted\<close> names the text that
  is normalized and emitted. Every hit is a dictionary, as the searches of this class
  return them.
\<close>

definition formatted :: "string \<Rightarrow> string" where
  "formatted content =
     (if contains marker content then content else format_content content 150)"

definition add_hit :: "string set \<times> string list \<Rightarrow> hit \<Rightarrow> string set \<times> string list" where
  "add_hit acc h =
     (let (seen, formatted_hits) = acc; content = hit_text h
      in if content = [] then acc
         else
           (let f = formatted content; normalized = normalize_content f
            in if normalized \<notin> seen then (insert normalized seen, formatted_hits @ [f])
               else acc))"

text \<open>The bullet prefix \<^verbatim>\<open>" \<bullet> "\<close>, the bullet in UTF-8.\<close>

definition bullet :: string where
  "bullet = [CHR '' '', CHR 0xE2, CHR 0x80, CHR 0xA2, CHR '' '']"

text \<open>
  \<^verbatim>\<open>add_section\<close> (lines 697-730), on the pair of \<^verbatim>\<open>lines\<close> and \<^verbatim>\<open>seen_contents\<close>
  that the enclosing function owns.
\<close>

definition add_section ::
  "string list \<times> string set \<Rightarrow> string \<Rightarrow> hit list \<Rightarrow> string list \<times> string set" where
  "add_section ctx title hits =
     (let (lines, seen) = ctx
      in if hits = [] then ctx
         else
           (let (seen', formatted_hits) = foldl add_hit (seen, []) hits
            in if formatted_hits \<noteq> [] then
                 ((if lines \<noteq> [] then lines @ [[]] else lines)
                    @ [title, replicate (length title) CHR ''='', []]
                    @ map (\<lambda>content. bullet @ content) formatted_hits,
                  seen')
               else (lines, seen')))"

text \<open>
  Lines 740-746: the four sections in their order, from the results of the four searches;
  \<open>user\<close> is \<open>None\<close> when \<^verbatim>\<open>user_id\<close> is false.
\<close>

definition context_lines ::
  "hit list \<Rightarrow> hit list \<Rightarrow> hit list \<Rightarrow> hit list option \<Rightarrow> string list" where
  "context_lines short_term long_term entities user =
     (let ctx = add_section ([], {}) ''Short-term Memory Context'' short_term;
          ctx = add_section ctx ''Long-term Memory Context'' long_term;
          ctx = add_section ctx ''Entity Context'' entities;
          ctx = (case user of None \<Rightarrow> ctx | Some user_mem \<Rightarrow> add_section ctx ''User Context'' user_mem)
      in fst ctx)"

text \<open>
  \<^verbatim>\<open>build_context_for_task\<close> (lines 653-746). An exception of a search ends the call.
\<close>

definition build_context_for_task ::
  "state \<Rightarrow> backends \<Rightarrow> string \<Rightarrow> string option \<Rightarrow> string \<Rightarrow> int \<Rightarrow> error + string" where
  "build_context_for_task st be task_descr user_id additional max_items =
     (let q = strip (task_descr @ '' '' @ additional)
      in case search_short_term st be q max_items 0 0 of Inl e \<Rightarrow> Inl e | Inr short_term \<Rightarrow>
         (case search_long_term st be q max_items 0 0 of Inl e \<Rightarrow> Inl e | Inr long_term \<Rightarrow>
         (case search_entity st be q max_items of Inl e \<Rightarrow> Inl e | Inr entities \<Rightarrow>
         (case (case user_id of
                  None \<Rightarrow> Inr None
                | Some u \<Rightarrow>
                    if u = [] then Inr None
                    else (case search_user_memory st be u q max_items of
                            Inl e \<Rightarrow> Inl e
                          | Inr user_mem \<Rightarrow> Inr (Some user_mem))) of
            Inl e \<Rightarrow> Inl e
          | Inr user \<Rightarrow>
              Inr (join [CHR 0x0A] (context_lines short_term long_term entities user))))))"

section \<open>Reading the assembled context\<close>




section \<open>Properties of the quality score\<close>

lemma py_round3_multiple: "\<exists>k::int. py_round3 x = of_int k / 1000"
  by (auto simp: py_round3_def Let_def)

lemma py_round3_near: "\<bar>py_round3 x - x\<bar> \<le> 1 / 2000"
proof -
  define y where "y = x * 1000"
  define n where "n = \<lfloor>y\<rfloor>"
  define d where "d = y - of_int n"
  define k where "k = (if d < 1 / 2 then n else if 1 / 2 < d then n + 1
                       else if even n then n else n + 1)"
  have d: "0 \<le> d" "d < 1"
    unfolding d_def n_def by linarith+
  have r: "py_round3 x = of_int k / 1000"
    unfolding py_round3_def Let_def y_def [symmetric] n_def [symmetric] d_def [symmetric] k_def
    by (rule refl)
  have k: "\<bar>of_int k - (of_int n + d)\<bar> \<le> 1 / 2"
    using d by (auto simp: k_def abs_le_iff)
  have "py_round3 x - x = (of_int k - y) / 1000"
    by (simp add: r y_def)
  also have "y = of_int n + d"
    by (simp add: d_def)
  finally have "\<bar>py_round3 x - x\<bar> = \<bar>of_int k - (of_int n + d)\<bar> / 1000"
    by (simp only: abs_divide abs_numeral)
  moreover have "b \<le> 1 / 2000" if "a \<le> 1 / 2" "b = a / 1000" for a b :: real
    using that by simp
  ultimately show ?thesis
    using k by blast
qed

lemma py_round3_examples:
  "py_round3 0.75 = 0.75" "py_round3 0.12345 = 0.123" "py_round3 0.6789 = 0.679"
  "py_round3 (1 / 3) = 0.333"
  by (simp_all add: py_round3_def Let_def)



section \<open>Citation suffix\<close>

lemma contains_iff: "contains sub s \<longleftrightarrow> (\<exists>xs ys. s = xs @ sub @ ys)"
proof (induction s)
  case Nil
  then show ?case by auto
next
  case (Cons c cs)
  show ?case
  proof
    assume "contains sub (c # cs)"
    then consider "take (length sub) (c # cs) = sub" | "contains sub cs" by auto
    then show "\<exists>xs ys. c # cs = xs @ sub @ ys"
    proof cases
      case 1
      then have "c # cs = [] @ sub @ drop (length sub) (c # cs)"
        by (metis append_Nil append_take_drop_id)
      then show ?thesis by blast
    next
      case 2
      with Cons.IH obtain xs ys where "cs = xs @ sub @ ys" by blast
      then have "c # cs = (c # xs) @ sub @ ys" by simp
      then show ?thesis by blast
    qed
  next
    assume "\<exists>xs ys. c # cs = xs @ sub @ ys"
    then obtain xs ys where eq: "c # cs = xs @ sub @ ys" by blast
    show "contains sub (c # cs)"
    proof (cases xs)
      case Nil
      with eq have "take (length sub) (c # cs) = sub" by simp
      then show ?thesis by simp
    next
      case (Cons x xs')
      with eq have "cs = xs' @ sub @ ys" by simp
      with Cons.IH have "contains sub cs" by blast
      then show ?thesis by simp
    qed
  qed
qed

lemma contains_with_citation: "contains marker (with_citation t)"
proof -
  have "with_citation t = (t @ '' '') @ marker @ ('' '' @ t @ '')'')"
    by (simp add: with_citation_def marker_def)
  then show ?thesis
    unfolding contains_iff by blast
qed

text \<open>On the table path the citation is appended once and a second pass changes nothing.\<close>

lemma local_text_idempotent: "local_text (local_text t) = local_text t"
  by (simp add: local_text_def contains_with_citation)

lemma local_text_uncited: "\<not> contains marker t \<Longrightarrow> local_text t = with_citation t"
  by (simp add: local_text_def)

lemma local_text_cited: "contains marker t \<Longrightarrow> local_text t = t"
  by (simp add: local_text_def)

text \<open>On the vector path the text returned always differs from the document stored.\<close>

lemma vector_hit_always_cites: "hit_text (vector_hit i) \<noteq> item_document i"
proof
  assume "hit_text (vector_hit i) = item_document i"
  then have "length (with_citation (item_document i)) = length (item_document i)"
    by (simp add: vector_hit_def)
  then show False
    by (simp add: with_citation_def)
qed

text \<open>
  C4. The claim: the citation is appended exactly once on the vector path and on the table
  path, and a text that already holds the marker is left unchanged. The table path does so
  (line 486 tests for the marker). The vector path appends without the test (line 461): for
  the stored document \<^verbatim>\<open>a (Memory record: a)\<close> a search through the vector collection
  returns the text with a second citation around the first, while the same text read from
  the table comes back unchanged.
\<close>

theorem vector_citation_appended_twice:
  "search_long_term
     \<lparr>heap = [], use_mem0 = False, use_rag = True, short_mem = [], long_mem = [],
      chroma_col = [(''1'', ''a (Memory record: a)'')], mem0_mem = []\<rparr>
     \<lparr>mem0_search = (\<lambda>q l u. Inr []),
      chroma_query = (\<lambda>q l. Inr [\<lparr>item_id = ''1'', item_document = ''a (Memory record: a)'',
                                      item_metadata = [], item_distance = 0\<rparr>])\<rparr>
     ''a'' 5 0 0
   = Inr [\<lparr>hit_id = ''1'',
           hit_text = ''a (Memory record: a) (Memory record: a (Memory record: a))'',
           hit_metadata = [], hit_score = Some 1, hit_created_at = None\<rparr>] \<and>
   search_long_term
     \<lparr>heap = [], use_mem0 = False, use_rag = False, short_mem = [],
      long_mem = [\<lparr>row_id = ''1'', row_content = ''a (Memory record: a)'', row_meta = [],
                   row_created_at = 0\<rparr>],
      chroma_col = [], mem0_mem = []\<rparr>
     \<lparr>mem0_search = (\<lambda>q l u. Inr []), chroma_query = (\<lambda>q l. Inr [])\<rparr>
     ''a'' 5 0 0
   = Inr [\<lparr>hit_id = ''1'', hit_text = ''a (Memory record: a)'',
           hit_metadata = [], hit_score = None, hit_created_at = Some 0\<rparr>]"
  by (simp add: search_long_term_def found_hits_def select_like_def sql_limit_def vector_hit_def
      with_citation_def merge_row_def local_hit_def local_text_def marker_def py_take_def
      lower_char_def)

section \<open>Failure of the durable write\<close>

text \<open>Whatever its arguments, the long-term store never raises the error of the database.\<close>

lemma store_long_term_never_raises_database_error:
  "snd (store_long_term st env body metadata qa) \<noteq> Some DatabaseError"
proof -
  have "e \<noteq> DatabaseError" if "process_quality_metrics h m qa = Inl e" for h m e
    using that
    by (auto simp: process_quality_metrics_def compute_quality_score_def weight_def Let_def
        split: prod.splits option.splits sum.splits if_splits)
  then show ?thesis
    by (auto simp: store_long_term_def Let_def split: prod.splits sum.splits)
qed

text \<open>
  C2. The claim: on either partition a failed write to the durable table reaches the caller
  as an error. \<^const>\<open>store_short_term\<close> raises the error again (line 235);
  \<^const>\<open>store_long_term\<close> logs it and returns (line 376). With a failing database the
  long-term store returns normally, having written nothing to the table or to a secondary
  backend, while the short-term store raises.
\<close>

theorem store_long_term_swallows_write_failure:
  "snd (store_long_term st (env\<lparr>db_ok := False\<rparr>) body metadata no_quality) = None \<and>
   long_mem (fst (store_long_term st (env\<lparr>db_ok := False\<rparr>) body metadata no_quality))
     = long_mem st \<and>
   chroma_col (fst (store_long_term st (env\<lparr>db_ok := False\<rparr>) body metadata no_quality))
     = chroma_col st \<and>
   mem0_mem (fst (store_long_term st (env\<lparr>db_ok := False\<rparr>) body metadata no_quality))
     = mem0_mem st \<and>
   snd (store_short_term st (env\<lparr>db_ok := False\<rparr>) body metadata no_quality)
     = Some DatabaseError"
  by (simp add: store_long_term_def store_short_term_def process_quality_metrics_def
      no_quality_def db_insert_def or_empty_def Let_def split: option.splits prod.splits)

section \<open>Failure of a search provider\<close>

text \<open>The vector branch of either search never lets a failure of the provider through.\<close>

lemma search_short_term_vector_degrades:
  "\<not> use_mem0 st \<Longrightarrow> use_rag st \<Longrightarrow> \<exists>hits. search_short_term st be q l mq rc = Inr hits"
  by (simp add: search_short_term_def split: sum.splits)

lemma search_short_term_vector_failure:
  "\<not> use_mem0 st \<Longrightarrow> use_rag st \<Longrightarrow> chroma_query be q l = Inl e \<Longrightarrow>
   search_short_term st be q l mq rc = Inr []"
  by (simp add: search_short_term_def)

lemma search_long_term_vector_failure:
  "\<not> use_mem0 st \<Longrightarrow> use_rag st \<Longrightarrow> chroma_query be q l = Inl e \<Longrightarrow>
   search_long_term st be q l rc mq = search_long_term (st\<lparr>use_rag := False\<rparr>) be q l rc mq"
  by (simp add: search_long_term_def found_hits_def)

text \<open>With the external service in use, an exception of its search ends either search.\<close>

lemma mem0_search_failure_general:
  "use_mem0 st \<Longrightarrow> mem0_search be q l None = Inl e \<Longrightarrow>
   search_short_term st be q l mq rc = Inl e \<and> search_long_term st be q l rc mq = Inl e"
  by (simp add: search_short_term_def search_long_term_def)

text \<open>
  C3. The claim: no search lets a failure of its provider reach the caller, whether the
  provider is the external service or the vector collection. The vector branches catch
  every exception (lines 285 and 470). The calls of \<^verbatim>\<open>mem0_client.search\<close> at lines 248
  and 431 stand outside any \<^verbatim>\<open>try\<close>: when the external service is in use and its search
  raises, both searches raise.
\<close>

theorem mem0_search_failure_propagates:
  "search_short_term (st\<lparr>use_mem0 := True\<rparr>)
       (be\<lparr>mem0_search := (\<lambda>q l u. Inl ProviderError)\<rparr>)
       query limit min_quality relevance_cutoff
     = Inl ProviderError \<and>
   search_long_term (st\<lparr>use_mem0 := True\<rparr>)
       (be\<lparr>mem0_search := (\<lambda>q l u. Inl ProviderError)\<rparr>)
       query limit relevance_cutoff min_quality
     = Inl ProviderError"
  by (simp add: search_short_term_def search_long_term_def)

section \<open>Merging the table into a long-term search\<close>

lemma foldl_merge_row:
  "distinct (map row_id rows) \<Longrightarrow>
   foldl merge_row found rows
     = found @ map local_hit (filter (\<lambda>r. row_id r \<notin> hit_id ` set found) rows)"
proof (induction rows arbitrary: found)
  case Nil
  then show ?case by simp
next
  case (Cons r rows)
  have ex: "list_ex (\<lambda>f. hit_id f = row_id r) found \<longleftrightarrow> row_id r \<in> hit_id ` set found"
    by (auto simp: list_ex_iff intro: rev_image_eqI)
  show ?case
  proof (cases "row_id r \<in> hit_id ` set found")
    case True
    with Cons ex show ?thesis by (simp add: merge_row_def)
  next
    case False
    have id: "hit_id (local_hit r) = row_id r"
      by (simp add: local_hit_def)
    have "filter (\<lambda>x. row_id x \<notin> hit_id ` set (found @ [local_hit r])) rows
        = filter (\<lambda>x. row_id x \<notin> hit_id ` set found) rows"
    proof (intro filter_cong refl)
      fix x assume "x \<in> set rows"
      with Cons.prems have "row_id x \<noteq> row_id r"
        by (metis distinct.simps(2) image_eqI list.simps(9) set_map)
      then show "(row_id x \<notin> hit_id ` set (found @ [local_hit r]))
               = (row_id x \<notin> hit_id ` set found)"
        by (simp add: id)
    qed
    with False Cons ex show ?thesis by (simp add: merge_row_def)
  qed
qed

text \<open>
  With the vector collection in use and no positive bound, the long-term search returns the
  results of the collection followed by every selected row whose id the collection did not
  return, cut to \<open>limit\<close>.
\<close>

lemma search_long_term_vector_merges_table:
  assumes "\<not> use_mem0 st" "use_rag st" "chroma_query be q l = Inr items"
    and "distinct (map row_id (long_mem st))"
  shows "search_long_term st be q l 0 0
     = Inr (py_take l (map vector_hit items
              @ map local_hit (filter (\<lambda>r. row_id r \<notin> item_id ` set items)
                                 (select_like (long_mem st) q l))))"
proof -
  have "distinct (map row_id (select_like (long_mem st) q l))"
    using assms(4) by (simp add: select_like_def sql_limit_def distinct_map_filter distinct_take
        take_map [symmetric])
  moreover have "hit_id ` set (map vector_hit items) = item_id ` set items"
    by (force simp: vector_hit_def)
  ultimately show ?thesis
    using assms(1-3) by (simp add: search_long_term_def found_hits_def foldl_merge_row)
qed

text \<open>With the external service in use, the long-term search does not depend on the table.\<close>

lemma mem0_search_ignores_table:
  "use_mem0 st \<Longrightarrow>
   search_long_term (st\<lparr>long_mem := tbl\<rparr>) be q l rc mq = search_long_term st be q l rc mq"
  by (simp add: search_long_term_def)

text \<open>
  C1. The claim: with a vector or an external backend in use, the long-term search asks the
  backend and then always queries the table \<^verbatim>\<open>long_mem\<close> as well, adding the rows the
  backend did not return. The vector branch does so (lines 473-495, whose comments read
  "Always try SQLite as fallback or additional source" and "Only add if not already found
  by ChromaDB/Mem0"). The branch of the external service returns at line 435 before the
  table is read: with the service in use and a matching row in the table, the search
  returns what the service returned, here nothing, while the same state without the service
  returns the row.
\<close>

theorem mem0_search_skips_local_table:
  "search_long_term
     \<lparr>heap = [], use_mem0 = True, use_rag = False, short_mem = [],
      long_mem = [\<lparr>row_id = ''1'', row_content = ''hello world'', row_meta = [],
                   row_created_at = 0\<rparr>],
      chroma_col = [], mem0_mem = []\<rparr>
     \<lparr>mem0_search = (\<lambda>q l u. Inr []), chroma_query = (\<lambda>q l. Inr [])\<rparr>
     ''hello'' 5 0 0
   = Inr [] \<and>
   search_long_term
     \<lparr>heap = [], use_mem0 = False, use_rag = False, short_mem = [],
      long_mem = [\<lparr>row_id = ''1'', row_content = ''hello world'', row_meta = [],
                   row_created_at = 0\<rparr>],
      chroma_col = [], mem0_mem = []\<rparr>
     \<lparr>mem0_search = (\<lambda>q l u. Inr []), chroma_query = (\<lambda>q l. Inr [])\<rparr>
     ''hello'' 5 0 0
   = Inr [\<lparr>hit_id = ''1'', hit_text = ''hello world (Memory record: hello world)'',
           hit_metadata = [], hit_score = None, hit_created_at = Some 0\<rparr>]"
  by (simp add: search_long_term_def found_hits_def select_like_def sql_limit_def
      with_citation_def merge_row_def local_hit_def local_text_def marker_def py_take_def
      lower_char_def)

section \<open>Promotion of task output\<close>

lemma or_empty_kept: "p < length h \<Longrightarrow> h ! p \<noteq> [] \<Longrightarrow> or_empty h (Some p) = (h, p)"
  by (simp add: or_empty_def)

lemma process_quality_metrics_none:
  "p < length h \<Longrightarrow> h ! p \<noteq> [] \<Longrightarrow> process_quality_metrics h (Some p) no_quality = Inr (h, p)"
  by (simp add: process_quality_metrics_def or_empty_kept no_quality_def)


lemma store_short_term_plain:
  assumes "p < length (heap st)" "heap st ! p \<noteq> []"
  shows "store_short_term st env body (Some p) no_quality =
     (if db_ok env \<and> str_nat (time_ns env) \<notin> row_id ` set (short_mem st)
      then (st\<lparr>short_mem := short_mem st @
                 [\<lparr>row_id = str_nat (time_ns env), row_content = body, row_meta = heap st ! p,
                   row_created_at = time_now env\<rparr>]\<rparr>, None)
      else (st, Some DatabaseError))"
  using assms
  by (simp add: store_short_term_def process_quality_metrics_none db_insert_def Let_def)

lemma store_long_term_plain_table:
  assumes "p < length (heap st)" "heap st ! p \<noteq> []"
  shows "long_mem (fst (store_long_term st env body (Some p) no_quality)) =
     (if db_ok env \<and> str_nat (time_ns env) \<notin> row_id ` set (long_mem st)
      then long_mem st @
                 [\<lparr>row_id = str_nat (time_ns env), row_content = body, row_meta = heap st ! p,
                   row_created_at = time_now env\<rparr>]
      else long_mem st)"
  using assms
  by (simp add: store_long_term_def or_empty_kept process_quality_metrics_none db_insert_def Let_def)

lemma store_long_term_short_mem:
  "short_mem (fst (store_long_term st env body md qa)) = short_mem st"
  by (simp add: store_long_term_def Let_def split: prod.splits sum.splits)

text \<open>
  C6. \<^const>\<open>finalize_task_output\<close> always attempts the short-term store and attempts the
  long-term store exactly when \<open>quality_score \<ge> threshold\<close>. In terms of the tables: the
  short-term table gains the row of the content whenever its insert succeeds, whatever the
  score; the long-term table gains the row exactly when the score reaches the threshold and
  its insert succeeds, whether or not the short-term insert succeeded; otherwise either table
  is as before. An insert succeeds when the database accepts it and the new id is unused.
\<close>

theorem finalize_task_output_promotion:
  fixes st :: state and now :: real and env_s env_l :: store_env
    and content agent_name :: string and quality_score threshold :: real
    and metrics :: "pydict option" and task_id :: "string option"
  defines "st' \<equiv> finalize_task_output st now env_s env_l content agent_name quality_score
                     threshold metrics task_id"
    and "metadata \<equiv>
           [(''task_id'', case task_id of None \<Rightarrow> JNone | Some t \<Rightarrow> JStr t),
            (''agent'', JStr agent_name),
            (''quality'', JNum quality_score),
            (''metrics'', case metrics of None \<Rightarrow> JNone | Some m \<Rightarrow> JDict m),
            (''task_type'', JStr ''output''),
            (''stored_at'', JNum now)]"
  shows "short_mem st' =
           (if db_ok env_s \<and> str_nat (time_ns env_s) \<notin> row_id ` set (short_mem st)
            then short_mem st @
                   [\<lparr>row_id = str_nat (time_ns env_s), row_content = content,
                     row_meta = metadata, row_created_at = time_now env_s\<rparr>]
            else short_mem st) \<and>
         long_mem st' =
           (if threshold \<le> quality_score \<and> db_ok env_l
               \<and> str_nat (time_ns env_l) \<notin> row_id ` set (long_mem st)
            then long_mem st @
                   [\<lparr>row_id = str_nat (time_ns env_l), row_content = content,
                     row_meta = metadata, row_created_at = time_now env_l\<rparr>]
            else long_mem st)"
proof -
  define p where "p = length (heap st)"
  define st0 where "st0 = st\<lparr>heap := heap st @ [metadata]\<rparr>"
  define st1 where "st1 = fst (store_short_term st0 env_s content (Some p) no_quality)"
  have p: "p < length (heap st0)" "heap st0 ! p = metadata" "metadata \<noteq> []"
    by (simp_all add: p_def st0_def metadata_def)
  have st': "st' = (if threshold \<le> quality_score
                   then fst (store_long_term st1 env_l content (Some p) no_quality) else st1)"
    by (simp add: st'_def finalize_task_output_def Let_def st1_def st0_def p_def metadata_def)
  have s1: "store_short_term st0 env_s content (Some p) no_quality =
     (if db_ok env_s \<and> str_nat (time_ns env_s) \<notin> row_id ` set (short_mem st0)
      then (st0\<lparr>short_mem := short_mem st0 @
                 [\<lparr>row_id = str_nat (time_ns env_s), row_content = content, row_meta = heap st0 ! p,
                   row_created_at = time_now env_s\<rparr>]\<rparr>, None)
      else (st0, Some DatabaseError))"
    using p by (intro store_short_term_plain) simp_all
  have h1: "heap st1 = heap st0" and l1: "long_mem st1 = long_mem st"
    and sh1: "short_mem st1 = (if db_ok env_s \<and> str_nat (time_ns env_s) \<notin> row_id ` set (short_mem st)
            then short_mem st @
                   [\<lparr>row_id = str_nat (time_ns env_s), row_content = content,
                     row_meta = metadata, row_created_at = time_now env_s\<rparr>]
            else short_mem st)"
    unfolding st1_def s1 using p by (simp_all add: st0_def)
  have p1: "p < length (heap st1)" "heap st1 ! p \<noteq> []"
    using p h1 by simp_all
  have short: "short_mem st' = short_mem st1"
    by (simp add: st' store_long_term_short_mem)
  have long: "long_mem st' = (if threshold \<le> quality_score \<and> db_ok env_l
               \<and> str_nat (time_ns env_l) \<notin> row_id ` set (long_mem st)
            then long_mem st @
                   [\<lparr>row_id = str_nat (time_ns env_l), row_content = content,
                     row_meta = metadata, row_created_at = time_now env_l\<rparr>]
            else long_mem st)"
    using store_long_term_plain_table [OF p1, of env_l content] p h1 l1
    by (simp add: st')
  from short sh1 long show ?thesis by simp
qed

text \<open>
  A score of \<open>0.5\<close> against the threshold \<open>0.7\<close> leaves one short-term row and no
  long-term row; a score of \<open>0.8\<close> leaves a row in both tables, and a long-term row even
  when the short-term insert fails.
\<close>

lemma str_nat_examples:
  "str_nat 11 = ''11''" "str_nat 12 = ''12''" "str_nat 1234 = ''1234''"
  by code_simp+

theorem finalize_task_output_promotion_witness:
  "short_mem (finalize_task_output
       \<lparr>heap = [], use_mem0 = False, use_rag = False, short_mem = [], long_mem = [],
        chroma_col = [], mem0_mem = []\<rparr>
       3 \<lparr>time_ns = 11, time_now = 4, db_ok = True, embed_ok = True, backend_ok = True\<rparr>
       \<lparr>time_ns = 12, time_now = 5, db_ok = True, embed_ok = True, backend_ok = True\<rparr>
       ''report'' ''writer'' 0.5 0.7 None None)
     = [\<lparr>row_id = ''11'', row_content = ''report'',
         row_meta = [(''task_id'', JNone), (''agent'', JStr ''writer''), (''quality'', JNum 0.5),
                     (''metrics'', JNone), (''task_type'', JStr ''output''),
                     (''stored_at'', JNum 3)],
         row_created_at = 4\<rparr>] \<and>
   long_mem (finalize_task_output
       \<lparr>heap = [], use_mem0 = False, use_rag = False, short_mem = [], long_mem = [],
        chroma_col = [], mem0_mem = []\<rparr>
       3 \<lparr>time_ns = 11, time_now = 4, db_ok = True, embed_ok = True, backend_ok = True\<rparr>
       \<lparr>time_ns = 12, time_now = 5, db_ok = True, embed_ok = True, backend_ok = True\<rparr>
       ''report'' ''writer'' 0.5 0.7 None None)
     = [] \<and>
   short_mem (finalize_task_output
       \<lparr>heap = [], use_mem0 = False, use_rag = False, short_mem = [], long_mem = [],
        chroma_col = [], mem0_mem = []\<rparr>
       3 \<lparr>time_ns = 11, time_now = 4, db_ok = True, embed_ok = True, backend_ok = True\<rparr>
       \<lparr>time_ns = 12, time_now = 5, db_ok = True, embed_ok = True, backend_ok = True\<rparr>
       ''report'' ''writer'' 0.8 0.7 None None)
     = [\<lparr>row_id = ''11'', row_content = ''report'',
         row_meta = [(''task_id'', JNone), (''agent'', JStr ''writer''), (''quality'', JNum 0.8),
                     (''metrics'', JNone), (''task_type'', JStr ''output''),
                     (''stored_at'', JNum 3)],
         row_created_at = 4\<rparr>] \<and>
   long_mem (finalize_task_output
       \<lparr>heap = [], use_mem0 = False, use_rag = False, short_mem = [], long_mem = [],
        chroma_col = [], mem0_mem = []\<rparr>
       3 \<lparr>time_ns = 11, time_now = 4, db_ok = True, embed_ok = True, backend_ok = True\<rparr>
       \<lparr>time_ns = 12, time_now = 5, db_ok = True, embed_ok = True, backend_ok = True\<rparr>
       ''report'' ''writer'' 0.8 0.7 None None)
     = [\<lparr>row_id = ''12'', row_content = ''report'',
         row_meta = [(''task_id'', JNone), (''agent'', JStr ''writer''), (''quality'', JNum 0.8),
                     (''metrics'', JNone), (''task_type'', JStr ''output''),
                     (''stored_at'', JNum 3)],
         row_created_at = 5\<rparr>] \<and>
   short_mem (finalize_task_output
       \<lparr>heap = [], use_mem0 = False, use_rag = False, short_mem = [], long_mem = [],
        chroma_col = [], mem0_mem = []\<rparr>
       3 \<lparr>time_ns = 11, time_now = 4, db_ok = False, embed_ok = True, backend_ok = True\<rparr>
       \<lparr>time_ns = 12, time_now = 5, db_ok = True, embed_ok = True, backend_ok = True\<rparr>
       ''report'' ''writer'' 0.8 0.7 None None)
     = [] \<and>
   long_mem (finalize_task_output
       \<lparr>heap = [], use_mem0 = False, use_rag = False, short_mem = [], long_mem = [],
        chroma_col = [], mem0_mem = []\<rparr>
       3 \<lparr>time_ns = 11, time_now = 4, db_ok = False, embed_ok = True, backend_ok = True\<rparr>
       \<lparr>time_ns = 12, time_now = 5, db_ok = True, embed_ok = True, backend_ok = True\<rparr>
       ''report'' ''writer'' 0.8 0.7 None None)
     = [\<lparr>row_id = ''12'', row_content = ''report'',
         row_meta = [(''task_id'', JNone), (''agent'', JStr ''writer''), (''quality'', JNum 0.8),
                     (''metrics'', JNone), (''task_type'', JStr ''output''),
                     (''stored_at'', JNum 3)],
         row_created_at = 5\<rparr>]"
  using
    finalize_task_output_promotion [of
       "\<lparr>heap = [], use_mem0 = False, use_rag = False, short_mem = [], long_mem = [],
        chroma_col = [], mem0_mem = []\<rparr>"
       3
       "\<lparr>time_ns = 11, time_now = 4, db_ok = True, embed_ok = True, backend_ok = True\<rparr>"
       "\<lparr>time_ns = 12, time_now = 5, db_ok = True, embed_ok = True, backend_ok = True\<rparr>"
       "''report''" "''writer''" "0.5" "0.7" None None]
    finalize_task_output_promotion [of
       "\<lparr>heap = [], use_mem0 = False, use_rag = False, short_mem = [], long_mem = [],
        chroma_col = [], mem0_mem = []\<rparr>"
       3
       "\<lparr>time_ns = 11, time_now = 4, db_ok = True, embed_ok = True, backend_ok = True\<rparr>"
       "\<lparr>time_ns = 12, time_now = 5, db_ok = True, embed_ok = True, backend_ok = True\<rparr>"
       "''report''" "''writer''" "0.8" "0.7" None None]
    finalize_task_output_promotion [of
       "\<lparr>heap = [], use_mem0 = False, use_rag = False, short_mem = [], long_mem = [],
        chroma_col = [], mem0_mem = []\<rparr>"
       3
       "\<lparr>time_ns = 11, time_now = 4, db_ok = False, embed_ok = True, backend_ok = True\<rparr>"
       "\<lparr>time_ns = 12, time_now = 5, db_ok = True, embed_ok = True, backend_ok = True\<rparr>"
       "''report''" "''writer''" "0.8" "0.7" None None]
  by (simp add: str_nat_examples)

section \<open>Entity view\<close>

lemma filter_result_Inr:
  "filter_result p xs = Inr ys \<Longrightarrow> ys = filter (\<lambda>x. p x = Inr True) xs"
proof (induction xs arbitrary: ys)
  case Nil
  then show ?case by simp
next
  case (Cons x xs)
  then show ?case
    by (auto split: sum.splits if_splits)
qed

lemma py_take_subset: "set (py_take n xs) \<subseteq> set xs"
  by (auto simp: py_take_def dest: in_set_takeD)

lemma search_long_term_returns:
  "\<not> use_mem0 st \<Longrightarrow> mq \<le> 0 \<Longrightarrow> \<exists>hits. search_long_term st be q l rc mq = Inr hits"
  by (simp add: search_long_term_def Let_def)

text \<open>
  C7. Every record returned by \<^const>\<open>search_entity\<close> carries the category \<open>entity\<close>: the
  result is the long-term search with the limit 20 and no quality or relevance bound,
  filtered to the entity records and then cut to the caller's limit. Without the external
  service the search always returns.
\<close>

theorem search_entity_only_entities:
  "(\<not> use_mem0 st \<longrightarrow> (\<exists>ents. search_entity st be query limit = Inr ents)) \<and>
   (\<forall>ents. search_entity st be query limit = Inr ents \<longrightarrow>
      (\<exists>all_hits. search_long_term st be query 20 0 0 = Inr all_hits \<and>
                  ents = py_take limit (filter is_entity all_hits)) \<and>
      (\<forall>h \<in> set ents. map_of (hit_metadata h) ''category'' = Some (JStr ''entity'')))"
proof (intro conjI impI allI)
  assume "\<not> use_mem0 st"
  then obtain hits where "search_long_term st be query 20 0 0 = Inr hits"
    using search_long_term_returns [of st 0 be query 20 0] by auto
  then show "\<exists>ents. search_entity st be query limit = Inr ents"
    by (simp add: search_entity_def)
next
  fix ents
  assume r: "search_entity st be query limit = Inr ents"
  then obtain all_hits where a: "search_long_term st be query 20 0 0 = Inr all_hits"
    and e: "ents = py_take limit (filter is_entity all_hits)"
    by (auto simp: search_entity_def split: sum.splits)
  from a e show "\<exists>all_hits. search_long_term st be query 20 0 0 = Inr all_hits \<and>
                  ents = py_take limit (filter is_entity all_hits)"
    by blast
  from e have "set ents \<subseteq> set (filter is_entity all_hits)"
    using py_take_subset [of limit "filter is_entity all_hits"] by simp
  then show "\<forall>h \<in> set ents. map_of (hit_metadata h) ''category'' = Some (JStr ''entity'')"
    by (auto simp: is_entity_def)
qed

text \<open>
  A table with a matching row that is no entity and a matching entity row: only the entity
  row is returned.
\<close>

theorem search_entity_only_entities_witness:
  "search_entity
     \<lparr>heap = [], use_mem0 = False, use_rag = False, short_mem = [],
      long_mem = [\<lparr>row_id = ''1'', row_content = ''Bob likes tea'', row_meta = [],
                   row_created_at = 1\<rparr>,
                  \<lparr>row_id = ''2'',
                   row_content = ''Entity Bob(person): a user | relationships: none'',
                   row_meta = [(''category'', JStr ''entity'')], row_created_at = 2\<rparr>],
      chroma_col = [], mem0_mem = []\<rparr>
     \<lparr>mem0_search = (\<lambda>q l u. Inr []), chroma_query = (\<lambda>q l. Inr [])\<rparr> ''Bob'' 5
   = Inr [\<lparr>hit_id = ''2'',
           hit_text = ''Entity Bob(person): a user | relationships: none (Memory record: Entity Bob(person): a user | relationships: none)'',
           hit_metadata = [(''category'', JStr ''entity'')], hit_score = None,
           hit_created_at = Some 2\<rparr>] \<and>
   map_of [(''category'', JStr ''entity'')] ''category'' = Some (JStr ''entity'')"
  using search_entity_only_entities [of
     "\<lparr>heap = [], use_mem0 = False, use_rag = False, short_mem = [],
      long_mem = [\<lparr>row_id = ''1'', row_content = ''Bob likes tea'', row_meta = [],
                   row_created_at = 1\<rparr>,
                  \<lparr>row_id = ''2'',
                   row_content = ''Entity Bob(person): a user | relationships: none'',
                   row_meta = [(''category'', JStr ''entity'')], row_created_at = 2\<rparr>],
      chroma_col = [], mem0_mem = []\<rparr>"
     "\<lparr>mem0_search = (\<lambda>q l u. Inr []), chroma_query = (\<lambda>q l. Inr [])\<rparr>" "''Bob''" 5]
  by (simp add: search_entity_def search_long_term_def found_hits_def select_like_def
      sql_limit_def with_citation_def merge_row_def local_hit_def local_text_def marker_def
      py_take_def lower_char_def is_entity_def)

section \<open>Mutation of the caller's metadata\<close>

lemma store_short_term_heap:
  "heap (fst (store_short_term st env body md qa)) =
     (case process_quality_metrics (heap st) md qa of Inl e \<Rightarrow> heap st | Inr (h, p) \<Rightarrow> h)"
  by (simp add: store_short_term_def Let_def split: sum.splits prod.splits)

lemma store_long_term_heap:
  "p < length (heap st) \<Longrightarrow> heap st ! p \<noteq> [] \<Longrightarrow>
   heap (fst (store_long_term st env body (Some p) qa)) =
     (case process_quality_metrics (heap st) (Some p) qa of Inl e \<Rightarrow> heap st | Inr (h, p) \<Rightarrow> h)"
  by (simp add: store_long_term_def or_empty_kept Let_def split: sum.splits prod.splits)

lemma process_quality_metrics_submetrics:
  assumes "p < length h" "h ! p \<noteq> []"
    and "arg_completeness qa = Some c" "arg_relevance qa = Some r" "arg_clarity qa = Some l"
      "arg_accuracy qa = Some a" "compute_quality_score c r l a (arg_weights qa) = Inr q"
  shows "process_quality_metrics h (Some p) qa =
     Inr (h[p := dict_update (h ! p)
                   [(''completeness'', JNum c), (''relevance'', JNum r), (''clarity'', JNum l),
                    (''accuracy'', JNum a), (''quality'', JNum q)]], p)"
  using assms by (simp add: process_quality_metrics_def or_empty_kept)

lemma process_quality_metrics_evaluator:
  assumes "p < length h" "h ! p \<noteq> []"
    and "arg_completeness qa = None \<or> arg_relevance qa = None \<or> arg_clarity qa = None
         \<or> arg_accuracy qa = None"
    and "arg_evaluator_quality qa = Some q"
  shows "process_quality_metrics h (Some p) qa =
     Inr (h[p := AList.update ''quality'' (JNum q) (h ! p)], p)"
  using assms by (auto simp: process_quality_metrics_def or_empty_kept split: option.splits)

lemma map_of_submetrics:
  fixes d :: pydict and c r l a q :: real
  defines "d' \<equiv> dict_update d
                   [(''completeness'', JNum c), (''relevance'', JNum r), (''clarity'', JNum l),
                    (''accuracy'', JNum a), (''quality'', JNum q)]"
  shows "map_of d' ''quality'' = Some (JNum q)" "map_of d' ''completeness'' = Some (JNum c)"
    "map_of d' ''relevance'' = Some (JNum r)" "map_of d' ''clarity'' = Some (JNum l)"
    "map_of d' ''accuracy'' = Some (JNum a)"
  by (simp_all add: d'_def dict_update_def update_conv')

text \<open>An empty dictionary of the caller stays empty, whatever the quality inputs.\<close>

lemma store_leaves_empty_metadata:
  assumes "p < length (heap st)" "heap st ! p = []"
  shows "heap (fst (store_short_term st env body (Some p) qa)) ! p = [] \<and>
         heap (fst (store_long_term st env body (Some p) qa)) ! p = []"
  using assms
  by (auto simp: store_short_term_def store_long_term_def process_quality_metrics_def
      or_empty_def Let_def nth_append split: sum.splits option.splits prod.splits)

text \<open>
  C9, amended. When the caller passes a dictionary that is not empty (address \<open>p\<close> of the
  heap) together with quality inputs, \<^const>\<open>store_short_term\<close> and
  \<^const>\<open>store_long_term\<close> change that very dictionary and nothing else on the heap. On the
  sub-metrics path, taken when all four sub-metrics are given and the score is computed, it
  receives the four sub-metrics and \<open>quality\<close>; on the evaluator path, taken when a
  sub-metric is missing and \<open>evaluator_quality\<close> is given, it receives \<open>quality\<close>. This holds
  whether or not the insert into the table succeeds.
\<close>

theorem store_mutates_nonempty_metadata:
  fixes st :: state and p :: nat and c r l a q :: real
  defines "d_sub \<equiv> dict_update (heap st ! p)
                     [(''completeness'', JNum c), (''relevance'', JNum r), (''clarity'', JNum l),
                      (''accuracy'', JNum a), (''quality'', JNum q)]"
    and "d_ev \<equiv> AList.update ''quality'' (JNum q) (heap st ! p)"
  assumes "p < length (heap st)" and "heap st ! p \<noteq> []"
  shows
    "(arg_completeness qa = Some c \<and> arg_relevance qa = Some r \<and> arg_clarity qa = Some l \<and>
      arg_accuracy qa = Some a \<and> compute_quality_score c r l a (arg_weights qa) = Inr q \<longrightarrow>
        heap (fst (store_short_term st env body (Some p) qa)) = (heap st)[p := d_sub] \<and>
        heap (fst (store_long_term st env body (Some p) qa)) = (heap st)[p := d_sub] \<and>
        map_of d_sub ''quality'' = Some (JNum q) \<and>
        map_of d_sub ''completeness'' = Some (JNum c) \<and>
        map_of d_sub ''relevance'' = Some (JNum r) \<and>
        map_of d_sub ''clarity'' = Some (JNum l) \<and>
        map_of d_sub ''accuracy'' = Some (JNum a)) \<and>
     ((arg_completeness qa = None \<or> arg_relevance qa = None \<or> arg_clarity qa = None \<or>
       arg_accuracy qa = None) \<and> arg_evaluator_quality qa = Some q \<longrightarrow>
        heap (fst (store_short_term st env body (Some p) qa)) = (heap st)[p := d_ev] \<and>
        heap (fst (store_long_term st env body (Some p) qa)) = (heap st)[p := d_ev] \<and>
        map_of d_ev ''quality'' = Some (JNum q))"
proof (intro conjI impI)
  assume sub: "arg_completeness qa = Some c \<and> arg_relevance qa = Some r \<and>
      arg_clarity qa = Some l \<and> arg_accuracy qa = Some a \<and>
      compute_quality_score c r l a (arg_weights qa) = Inr q"
  have pq: "process_quality_metrics (heap st) (Some p) qa = Inr ((heap st)[p := d_sub], p)"
    unfolding d_sub_def using assms(3,4) sub
    by (intro process_quality_metrics_submetrics) simp_all
  from pq show "heap (fst (store_short_term st env body (Some p) qa)) = (heap st)[p := d_sub]"
    by (simp add: store_short_term_heap)
  from pq assms(3,4)
  show "heap (fst (store_long_term st env body (Some p) qa)) = (heap st)[p := d_sub]"
    by (simp add: store_long_term_heap)
  show "map_of d_sub ''quality'' = Some (JNum q)"
    "map_of d_sub ''completeness'' = Some (JNum c)"
    "map_of d_sub ''relevance'' = Some (JNum r)"
    "map_of d_sub ''clarity'' = Some (JNum l)"
    "map_of d_sub ''accuracy'' = Some (JNum a)"
    by (simp_all add: d_sub_def map_of_submetrics)
next
  assume ev: "(arg_completeness qa = None \<or> arg_relevance qa = None \<or> arg_clarity qa = None \<or>
       arg_accuracy qa = None) \<and> arg_evaluator_quality qa = Some q"
  have pq: "process_quality_metrics (heap st) (Some p) qa = Inr ((heap st)[p := d_ev], p)"
    unfolding d_ev_def using assms(3,4) ev
    by (intro process_quality_metrics_evaluator) simp_all
  from pq show "heap (fst (store_short_term st env body (Some p) qa)) = (heap st)[p := d_ev]"
    by (simp add: store_short_term_heap)
  from pq assms(3,4)
  show "heap (fst (store_long_term st env body (Some p) qa)) = (heap st)[p := d_ev]"
    by (simp add: store_long_term_heap)
  show "map_of d_ev ''quality'' = Some (JNum q)"
    by (simp add: d_ev_def update_conv')
qed

text \<open>A caller's dictionary \<^verbatim>\<open>{"user": "u"}\<close> after either store.\<close>

theorem store_mutates_nonempty_metadata_witness:
  "heap (fst (store_short_term
       \<lparr>heap = [[(''user'', JStr ''u'')]], use_mem0 = False, use_rag = False, short_mem = [],
        long_mem = [], chroma_col = [], mem0_mem = []\<rparr>
       \<lparr>time_ns = 11, time_now = 4, db_ok = True, embed_ok = True, backend_ok = True\<rparr>
       ''note'' (Some 0)
       \<lparr>arg_completeness = Some 0.9, arg_relevance = Some 0.8, arg_clarity = Some 0.7,
        arg_accuracy = Some 0.6, arg_weights = None, arg_evaluator_quality = Some 0.1\<rparr>))
     = [[(''user'', JStr ''u''), (''completeness'', JNum 0.9), (''relevance'', JNum 0.8),
         (''clarity'', JNum 0.7), (''accuracy'', JNum 0.6), (''quality'', JNum 0.75)]] \<and>
   heap (fst (store_long_term
       \<lparr>heap = [[(''user'', JStr ''u'')]], use_mem0 = False, use_rag = False, short_mem = [],
        long_mem = [], chroma_col = [], mem0_mem = []\<rparr>
       \<lparr>time_ns = 11, time_now = 4, db_ok = True, embed_ok = True, backend_ok = True\<rparr>
       ''note'' (Some 0)
       \<lparr>arg_completeness = None, arg_relevance = None, arg_clarity = None,
        arg_accuracy = None, arg_weights = None, arg_evaluator_quality = Some 0.9\<rparr>))
     = [[(''user'', JStr ''u''), (''quality'', JNum 0.9)]]"
  using
    store_mutates_nonempty_metadata [where p = 0
       and st = "\<lparr>heap = [[(''user'', JStr ''u'')]], use_mem0 = False, use_rag = False,
                  short_mem = [], long_mem = [], chroma_col = [], mem0_mem = []\<rparr>"
       and qa = "\<lparr>arg_completeness = Some 0.9, arg_relevance = Some 0.8, arg_clarity = Some 0.7,
        arg_accuracy = Some 0.6, arg_weights = None, arg_evaluator_quality = Some 0.1\<rparr>"
       and c = "0.9" and r = "0.8" and l = "0.7" and a = "0.6" and q = "0.75"
       and env = "\<lparr>time_ns = 11, time_now = 4, db_ok = True, embed_ok = True,
                   backend_ok = True\<rparr>"
       and body = "''note''"]
    store_mutates_nonempty_metadata [where p = 0
       and st = "\<lparr>heap = [[(''user'', JStr ''u'')]], use_mem0 = False, use_rag = False,
                  short_mem = [], long_mem = [], chroma_col = [], mem0_mem = []\<rparr>"
       and qa = "\<lparr>arg_completeness = None, arg_relevance = None, arg_clarity = None,
        arg_accuracy = None, arg_weights = None, arg_evaluator_quality = Some 0.9\<rparr>"
       and q = "0.9"
       and env = "\<lparr>time_ns = 11, time_now = 4, db_ok = True, embed_ok = True,
                   backend_ok = True\<rparr>"
       and body = "''note''"]
  by (simp add: compute_quality_score_def default_weights_def weight_def py_round3_def
      dict_update_def)

text \<open>
  C9 as stated fails for a dictionary that is empty: \<^verbatim>\<open>metadata or {}\<close> replaces an empty
  dictionary by a new one, so the caller's dictionary at address 0 is still empty after the
  call, while the stored row carries the quality.
\<close>

theorem store_empty_metadata_not_mutated:
  "heap (fst (store_short_term
       \<lparr>heap = [[]], use_mem0 = False, use_rag = False, short_mem = [],
        long_mem = [], chroma_col = [], mem0_mem = []\<rparr>
       \<lparr>time_ns = 11, time_now = 4, db_ok = True, embed_ok = True, backend_ok = True\<rparr>
       ''note'' (Some 0)
       \<lparr>arg_completeness = None, arg_relevance = None, arg_clarity = None,
        arg_accuracy = None, arg_weights = None, arg_evaluator_quality = Some 0.9\<rparr>)) ! 0
     = [] \<and>
   map row_meta (short_mem (fst (store_short_term
       \<lparr>heap = [[]], use_mem0 = False, use_rag = False, short_mem = [],
        long_mem = [], chroma_col = [], mem0_mem = []\<rparr>
       \<lparr>time_ns = 11, time_now = 4, db_ok = True, embed_ok = True, backend_ok = True\<rparr>
       ''note'' (Some 0)
       \<lparr>arg_completeness = None, arg_relevance = None, arg_clarity = None,
        arg_accuracy = None, arg_weights = None, arg_evaluator_quality = Some 0.9\<rparr>)))
     = [[(''quality'', JNum 0.9)]] \<and>
   heap (fst (store_long_term
       \<lparr>heap = [[]], use_mem0 = False, use_rag = False, short_mem = [],
        long_mem = [], chroma_col = [], mem0_mem = []\<rparr>
       \<lparr>time_ns = 11, time_now = 4, db_ok = True, embed_ok = True, backend_ok = True\<rparr>
       ''note'' (Some 0)
       \<lparr>arg_completeness = Some 0.9, arg_relevance = Some 0.8, arg_clarity = Some 0.7,
        arg_accuracy = Some 0.6, arg_weights = None, arg_evaluator_quality = None\<rparr>)) ! 0
     = []"
  by (simp add: store_short_term_def store_long_term_def process_quality_metrics_def
      or_empty_def db_insert_def compute_quality_score_def default_weights_def weight_def
      py_round3_def dict_update_def Let_def nth_append)

section \<open>Quality floor\<close>

lemma quality_ok_missing:
  "map_of m ''quality'' = None \<Longrightarrow> quality_ok m min_quality = Inr (min_quality \<le> 0)"
  by (simp add: quality_ok_def py_ge_def)

lemma quality_ok_positive:
  "0 < min_quality \<Longrightarrow> quality_ok m min_quality = Inr True \<Longrightarrow> map_of m ''quality'' \<noteq> None"
  using quality_ok_missing [of m min_quality] by auto

lemma filter_result_quality_positive:
  assumes "0 < min_quality"
    and "filter_result (\<lambda>x. quality_ok (f x) min_quality) xs = Inr ys"
  shows "\<forall>y \<in> set ys. map_of (f y) ''quality'' \<noteq> None"
  using filter_result_Inr [OF assms(2)] quality_ok_positive [OF assms(1)] by auto

lemma filter_result_quality_zero:
  assumes "filter_result (\<lambda>x. quality_ok (f x) 0) xs = Inr ys"
    and "x \<in> set xs" "map_of (f x) ''quality'' = None"
  shows "x \<in> set ys"
  using filter_result_Inr [OF assms(1)] assms(2,3) by (simp add: quality_ok_missing)

lemma filter_result_item_ok_positive:
  assumes "0 < min_quality"
    and "filter_result (item_ok min_quality rc) xs = Inr ys"
  shows "\<forall>y \<in> set ys. map_of (item_metadata y) ''quality'' \<noteq> None"
proof -
  have "item_ok min_quality rc y = Inr True \<Longrightarrow> map_of (item_metadata y) ''quality'' \<noteq> None" for y
    using quality_ok_positive [OF assms(1), of "item_metadata y"]
    by (auto simp: item_ok_def split: sum.splits)
  with filter_result_Inr [OF assms(2)] show ?thesis by auto
qed

lemma search_short_term_quality_positive:
  assumes "0 < min_quality" "\<not> use_mem0 st"
    and "search_short_term st be query limit min_quality rc = Inr hits"
  shows "\<forall>h \<in> set hits. map_of (hit_metadata h) ''quality'' \<noteq> None"
proof (cases "use_rag st")
  case True
  show ?thesis
  proof (cases "chroma_query be query limit")
    case (Inl e)
    with True assms show ?thesis by (simp add: search_short_term_def)
  next
    case (Inr items)
    show ?thesis
    proof (cases "filter_result (item_ok min_quality rc) items")
      case (Inl e)
      with Inr True assms show ?thesis by (simp add: search_short_term_def)
    next
      case kept: (Inr kept)
      from filter_result_item_ok_positive [OF assms(1) kept]
      show ?thesis using Inr True assms kept by (auto simp: search_short_term_def)
    qed
  qed
next
  case False
  with assms obtain kept where
    k: "filter_result (\<lambda>r. quality_ok (row_meta r) min_quality)
          (select_like (short_mem st) query limit) = Inr kept"
    and h: "hits = map short_hit kept"
    by (auto simp: search_short_term_def split: sum.splits)
  from filter_result_quality_positive [OF assms(1) k] h
  show ?thesis by (auto simp: short_hit_def)
qed

lemma search_long_term_quality_positive:
  assumes "0 < min_quality"
    and "search_long_term st be query limit rc min_quality = Inr hits"
  shows "\<forall>h \<in> set hits. map_of (hit_metadata h) ''quality'' \<noteq> None"
proof (cases "use_mem0 st")
  case True
  with assms(2) obtain results where
    "filter_result (\<lambda>r. quality_ok (hit_metadata r) min_quality) results = Inr hits"
    by (auto simp: search_long_term_def split: sum.splits)
  from filter_result_quality_positive [OF assms(1) this] show ?thesis .
next
  case False
  with assms obtain results where
    r: "filter_result (\<lambda>r. quality_ok (hit_metadata r) min_quality)
          (found_hits st be query limit) = Inr results"
    and h: "hits = py_take limit
                     (if 0 < rc then filter (\<lambda>r. rc \<le> score_or_1 r) results else results)"
    by (auto simp: search_long_term_def Let_def split: sum.splits)
  from h have "set hits \<subseteq> set results"
    using py_take_subset [of limit "if 0 < rc then filter (\<lambda>r. rc \<le> score_or_1 r) results else results"]
    by (auto split: if_splits)
  with filter_result_quality_positive [OF assms(1) r] show ?thesis by blast
qed

text \<open>
  C10. In every quality filter a record whose metadata has no \<open>quality\<close> key is compared as
  \<open>0.0\<close>. With a positive \<open>min_quality\<close> no such record is returned by
  \<^const>\<open>search_short_term\<close> (table and vector branch), \<^const>\<open>search_long_term\<close> or
  \<^const>\<open>search_with_quality\<close>. With \<open>min_quality = 0\<close> such a record passes: every selected
  row of the short-term table without the key is returned; the long-term search applies no
  quality filter to the merged list (and on the branch of the external service keeps every
  result without the key); \<^const>\<open>search_with_quality\<close> keeps every result of the inner
  search without the key.
\<close>

theorem quality_floor_missing_key:
  "(map_of m ''quality'' = None \<longrightarrow> quality_ok m min_quality = Inr (min_quality \<le> 0)) \<and>
   (0 < min_quality \<longrightarrow>
      (\<not> use_mem0 st \<and> search_short_term st be query limit min_quality relevance_cutoff = Inr hits
         \<longrightarrow> (\<forall>h \<in> set hits. map_of (hit_metadata h) ''quality'' \<noteq> None)) \<and>
      (search_long_term st be query limit relevance_cutoff min_quality = Inr hits
         \<longrightarrow> (\<forall>h \<in> set hits. map_of (hit_metadata h) ''quality'' \<noteq> None)) \<and>
      (search_with_quality st be query min_quality short limit = Inr hits
         \<longrightarrow> (\<forall>h \<in> set hits. map_of (hit_metadata h) ''quality'' \<noteq> None))) \<and>
   (\<not> use_mem0 st \<and> \<not> use_rag st \<and>
    search_short_term st be query limit 0 relevance_cutoff = Inr hits \<longrightarrow>
      (\<forall>r \<in> set (select_like (short_mem st) query limit).
         map_of (row_meta r) ''quality'' = None \<longrightarrow> short_hit r \<in> set hits)) \<and>
   (\<not> use_mem0 st \<longrightarrow>
      search_long_term st be query limit relevance_cutoff 0
        = Inr (py_take limit
                 (if 0 < relevance_cutoff
                  then filter (\<lambda>r. relevance_cutoff \<le> score_or_1 r) (found_hits st be query limit)
                  else found_hits st be query limit))) \<and>
   (use_mem0 st \<and> mem0_search be query limit None = Inr results \<and>
    search_long_term st be query limit relevance_cutoff 0 = Inr hits \<longrightarrow>
      (\<forall>h \<in> set results. map_of (hit_metadata h) ''quality'' = None \<longrightarrow> h \<in> set hits)) \<and>
   ((if short then search_short_term st be query limit 0 0
     else search_long_term st be query limit 0 0) = Inr results \<and>
    search_with_quality st be query 0 short limit = Inr hits \<longrightarrow>
      (\<forall>h \<in> set results. map_of (hit_metadata h) ''quality'' = None \<longrightarrow> h \<in> set hits))"
proof (intro conjI impI ballI)
  assume "map_of m ''quality'' = None"
  then show "quality_ok m min_quality = Inr (min_quality \<le> 0)"
    by (rule quality_ok_missing)
next
  fix h
  assume "0 < min_quality"
    "\<not> use_mem0 st \<and> search_short_term st be query limit min_quality relevance_cutoff = Inr hits"
    "h \<in> set hits"
  then show "map_of (hit_metadata h) ''quality'' \<noteq> None"
    using search_short_term_quality_positive [of min_quality st be query limit relevance_cutoff hits]
    by blast
next
  fix h
  assume "0 < min_quality"
    "search_long_term st be query limit relevance_cutoff min_quality = Inr hits" "h \<in> set hits"
  then show "map_of (hit_metadata h) ''quality'' \<noteq> None"
    using search_long_term_quality_positive [of min_quality st be query limit relevance_cutoff hits]
    by blast
next
  fix h
  assume pos: "0 < min_quality"
    and s: "search_with_quality st be query min_quality short limit = Inr hits"
    and h: "h \<in> set hits"
  from s obtain results where
    "filter_result (\<lambda>r. quality_ok (hit_metadata r) min_quality) results = Inr hits"
    by (auto simp: search_with_quality_def split: sum.splits)
  from filter_result_quality_positive [OF pos this] h
  show "map_of (hit_metadata h) ''quality'' \<noteq> None" by blast
next
  fix r
  assume a: "\<not> use_mem0 st \<and> \<not> use_rag st \<and>
      search_short_term st be query limit 0 relevance_cutoff = Inr hits"
    and r: "r \<in> set (select_like (short_mem st) query limit)"
      "map_of (row_meta r) ''quality'' = None"
  from a obtain kept where
    k: "filter_result (\<lambda>r. quality_ok (row_meta r) 0)
          (select_like (short_mem st) query limit) = Inr kept"
    and h: "hits = map short_hit kept"
    by (auto simp: search_short_term_def split: sum.splits)
  from filter_result_quality_zero [OF k r] h show "short_hit r \<in> set hits"
    by simp
next
  assume "\<not> use_mem0 st"
  then show "search_long_term st be query limit relevance_cutoff 0
        = Inr (py_take limit
                 (if 0 < relevance_cutoff
                  then filter (\<lambda>r. relevance_cutoff \<le> score_or_1 r) (found_hits st be query limit)
                  else found_hits st be query limit))"
    by (simp add: search_long_term_def Let_def)
next
  fix h
  assume a: "use_mem0 st \<and> mem0_search be query limit None = Inr results \<and>
    search_long_term st be query limit relevance_cutoff 0 = Inr hits"
    and h: "h \<in> set results" "map_of (hit_metadata h) ''quality'' = None"
  from a have u: "use_mem0 st" and m: "mem0_search be query limit None = Inr results"
    and s: "search_long_term st be query limit relevance_cutoff 0 = Inr hits"
    by simp_all
  from s u m have "filter_result (\<lambda>r. quality_ok (hit_metadata r) 0) results = Inr hits"
    by (simp add: search_long_term_def)
  from filter_result_quality_zero [OF this h] show "h \<in> set hits" .
next
  fix h
  assume a: "(if short then search_short_term st be query limit 0 0
     else search_long_term st be query limit 0 0) = Inr results \<and>
    search_with_quality st be query 0 short limit = Inr hits"
    and h: "h \<in> set results" "map_of (hit_metadata h) ''quality'' = None"
  from a have i: "(if short then search_short_term st be query limit 0 0
     else search_long_term st be query limit 0 0) = Inr results"
    and s: "search_with_quality st be query 0 short limit = Inr hits"
    by simp_all
  from s i have "filter_result (\<lambda>r. quality_ok (hit_metadata r) 0) results = Inr hits"
    by (simp add: search_with_quality_def)
  from filter_result_quality_zero [OF this h] show "h \<in> set hits" .
qed

text \<open>
  Two matching rows, one without the key and one with quality \<open>0.9\<close>: the floor \<open>0.5\<close>
  drops the first, the floor \<open>0\<close> keeps both.
\<close>

theorem quality_floor_missing_key_witness:
  "quality_ok [] 0.5 = Inr False \<and> quality_ok [] 0 = Inr True \<and>
   search_short_term
       \<lparr>heap = [], use_mem0 = False, use_rag = False,
        short_mem = [\<lparr>row_id = ''1'', row_content = ''hello world'', row_meta = [],
                       row_created_at = 1\<rparr>,
                     \<lparr>row_id = ''2'', row_content = ''hello there'',
                       row_meta = [(''quality'', JNum 0.9)], row_created_at = 2\<rparr>],
        long_mem = [\<lparr>row_id = ''1'', row_content = ''hello world'', row_meta = [],
                      row_created_at = 1\<rparr>,
                    \<lparr>row_id = ''2'', row_content = ''hello there'',
                      row_meta = [(''quality'', JNum 0.9)], row_created_at = 2\<rparr>],
        chroma_col = [], mem0_mem = []\<rparr>
       \<lparr>mem0_search = (\<lambda>q l u. Inr []), chroma_query = (\<lambda>q l. Inr [])\<rparr>
       ''hello'' 5 0.5 0
     = Inr [\<lparr>hit_id = ''2'', hit_text = ''hello there'', hit_metadata = [(''quality'', JNum 0.9)],
             hit_score = None, hit_created_at = None\<rparr>] \<and>
   search_short_term
       \<lparr>heap = [], use_mem0 = False, use_rag = False,
        short_mem = [\<lparr>row_id = ''1'', row_content = ''hello world'', row_meta = [],
                       row_created_at = 1\<rparr>,
                     \<lparr>row_id = ''2'', row_content = ''hello there'',
                       row_meta = [(''quality'', JNum 0.9)], row_created_at = 2\<rparr>],
        long_mem = [\<lparr>row_id = ''1'', row_content = ''hello world'', row_meta = [],
                      row_created_at = 1\<rparr>,
                    \<lparr>row_id = ''2'', row_content = ''hello there'',
                      row_meta = [(''quality'', JNum 0.9)], row_created_at = 2\<rparr>],
        chroma_col = [], mem0_mem = []\<rparr>
       \<lparr>mem0_search = (\<lambda>q l u. Inr []), chroma_query = (\<lambda>q l. Inr [])\<rparr>
       ''hello'' 5 0 0
     = Inr [\<lparr>hit_id = ''1'', hit_text = ''hello world'', hit_metadata = [], hit_score = None,
             hit_created_at = None\<rparr>,
            \<lparr>hit_id = ''2'', hit_text = ''hello there'', hit_metadata = [(''quality'', JNum 0.9)],
             hit_score = None, hit_created_at = None\<rparr>] \<and>
   search_long_term
       \<lparr>heap = [], use_mem0 = False, use_rag = False,
        short_mem = [\<lparr>row_id = ''1'', row_content = ''hello world'', row_meta = [],
                       row_created_at = 1\<rparr>,
                     \<lparr>row_id = ''2'', row_content = ''hello there'',
                       row_meta = [(''quality'', JNum 0.9)], row_created_at = 2\<rparr>],
        long_mem = [\<lparr>row_id = ''1'', row_content = ''hello world'', row_meta = [],
                      row_created_at = 1\<rparr>,
                    \<lparr>row_id = ''2'', row_content = ''hello there'',
                      row_meta = [(''quality'', JNum 0.9)], row_created_at = 2\<rparr>],
        chroma_col = [], mem0_mem = []\<rparr>
       \<lparr>mem0_search = (\<lambda>q l u. Inr []), chroma_query = (\<lambda>q l. Inr [])\<rparr>
       ''hello'' 5 0 0.5
     = Inr [\<lparr>hit_id = ''2'', hit_text = ''hello there (Memory record: hello there)'',
             hit_metadata = [(''quality'', JNum 0.9)], hit_score = None,
             hit_created_at = Some 2\<rparr>] \<and>
   search_with_quality
       \<lparr>heap = [], use_mem0 = False, use_rag = False,
        short_mem = [\<lparr>row_id = ''1'', row_content = ''hello world'', row_meta = [],
                       row_created_at = 1\<rparr>,
                     \<lparr>row_id = ''2'', row_content = ''hello there'',
                       row_meta = [(''quality'', JNum 0.9)], row_created_at = 2\<rparr>],
        long_mem = [\<lparr>row_id = ''1'', row_content = ''hello world'', row_meta = [],
                      row_created_at = 1\<rparr>,
                    \<lparr>row_id = ''2'', row_content = ''hello there'',
                      row_meta = [(''quality'', JNum 0.9)], row_created_at = 2\<rparr>],
        chroma_col = [], mem0_mem = []\<rparr>
       \<lparr>mem0_search = (\<lambda>q l u. Inr []), chroma_query = (\<lambda>q l. Inr [])\<rparr>
       ''hello'' 0.5 True 5
     = Inr [\<lparr>hit_id = ''2'', hit_text = ''hello there'', hit_metadata = [(''quality'', JNum 0.9)],
             hit_score = None, hit_created_at = None\<rparr>]"
  using quality_floor_missing_key [of "[]" "0.5"
       "\<lparr>heap = [], use_mem0 = False, use_rag = False,
        short_mem = [\<lparr>row_id = ''1'', row_content = ''hello world'', row_meta = [],
                       row_created_at = 1\<rparr>,
                     \<lparr>row_id = ''2'', row_content = ''hello there'',
                       row_meta = [(''quality'', JNum 0.9)], row_created_at = 2\<rparr>],
        long_mem = [\<lparr>row_id = ''1'', row_content = ''hello world'', row_meta = [],
                      row_created_at = 1\<rparr>,
                    \<lparr>row_id = ''2'', row_content = ''hello there'',
                      row_meta = [(''quality'', JNum 0.9)], row_created_at = 2\<rparr>],
        chroma_col = [], mem0_mem = []\<rparr>"
       "\<lparr>mem0_search = (\<lambda>q l u. Inr []), chroma_query = (\<lambda>q l. Inr [])\<rparr>"
       "''hello''" 5 0 "[\<lparr>hit_id = ''2'', hit_text = ''hello there'', hit_metadata = [(''quality'', JNum 0.9)],
             hit_score = None, hit_created_at = None\<rparr>]"]
    quality_floor_missing_key [of "[]" 0]
  by (simp add: search_short_term_def search_long_term_def search_with_quality_def
      found_hits_def select_like_def sql_limit_def quality_ok_def py_ge_def short_hit_def
      with_citation_def merge_row_def local_hit_def local_text_def marker_def py_take_def
      lower_char_def)

section \<open>Deduplication across sections\<close>

















text \<open>The string returned is the lines of the four search results, joined by line feeds.\<close>

lemma build_context_for_task_lines:
  assumes "build_context_for_task st be task_descr user_id additional max_items = Inr out"
  shows "\<exists>short_term long_term entities user.
           search_short_term st be (strip (task_descr @ '' '' @ additional)) max_items 0 0
             = Inr short_term \<and>
           search_long_term st be (strip (task_descr @ '' '' @ additional)) max_items 0 0
             = Inr long_term \<and>
           search_entity st be (strip (task_descr @ '' '' @ additional)) max_items
             = Inr entities \<and>
           out = join [CHR 0x0A] (context_lines short_term long_term entities user)"
  using assms
  by (auto simp: build_context_for_task_def Let_def split: sum.splits)

end
